theory Spec2Isabelle
  imports Main
begin

section \<open>Fusion rules for sparse convolutions: \<open>spconv/pytorch/quantization/fuse_mapping.py\<close>\<close>

subsection \<open>Classes and layer instances\<close>

text \<open>
  The classes the module names, as values. Python compares the keys of a dictionary of
  classes by identity, which is equality of these values. A class defined elsewhere is
  \<open>OtherClass name bases\<close>: a strict subclass of \<open>SubMConv3d\<close> is
  \<open>OtherClass ''MyConv'' [SubMConv3d]\<close>, a value different from \<open>SubMConv3d\<close>.
\<close>

datatype py_class =
    SubMConv1d | SparseConv1d | SparseInverseConv1d
  | SubMConv2d | SparseConv2d | SparseInverseConv2d
  | SubMConv3d | SparseConv3d | SparseInverseConv3d
  | BatchNorm1d | ReLU
  | SpconvBnNd | SpconvBnReLUNd | SpconvReLUNd
  | SparseConvBn | SparseConvBnReLU
  | OtherClass string "py_class list"

text \<open>
  A layer instance carries its class (\<open>type(m)\<close>) and the \<open>training\<close> flag every
  \<open>nn.Module\<close> has. The functions read \<open>out_channels\<close> of the convolution and
  \<open>num_features\<close>, \<open>affine\<close>, \<open>track_running_stats\<close> of the batch norm; the
  activation is read for its flag only.
\<close>

record layer =
  cls :: py_class
  training :: bool

record conv_module = layer +
  out_channels :: int

record bn_module = layer +
  num_features :: int
  affine :: bool
  track_running_stats :: bool

text \<open>
  Modelled from the spec: the constructors of the intrinsic wrapper classes
  (\<open>snni.SpconvBnNd\<close>, \<open>snni.SpconvBnReLUNd\<close>, \<open>snni.SpconvReLUNd\<close>) are imported from
  \<open>.intrinsic\<close>, which is not among the sources. The spec says the wrapper is "constructed
  from" its arguments and "retains live references to the original sub-modules":
  \<open>Intrinsic c ms\<close> is the instance of class \<open>c\<close> built from the modules \<open>ms\<close>, in order.
\<close>

datatype module =
    Conv conv_module
  | BatchNorm bn_module
  | Activation layer
  | Intrinsic py_class "module list"

subsection \<open>Errors and effects\<close>

text \<open>
  \<open>assert c, msg\<close> raises \<open>AssertionError(msg)\<close>; \<open>raise NotImplementedError(fmt.format(ms))\<close>
  is kept as the format's prefix and the modules formatted into it. An exception raised
  inside the external routine \<open>fuse_spconv_bn_eval\<close> propagates unchanged; it is tagged
  \<open>Propagated\<close> with its description, so that it is told apart from the errors the two
  functions raise themselves.
\<close>

datatype error =
    AssertionError string
  | NotImplementedError string "module list"
  | Propagated string

text \<open>
  What a call does besides returning, in order: a lookup in a class table, a call of the
  external routine, a call of a wrapper class's constructor.
\<close>

datatype event =
    Lookup py_class
  | CallFold conv_module bn_module
  | Construct py_class "module list"

text \<open>
  The external routine \<open>fuse_spconv_bn_eval\<close> (imported from \<open>.utils\<close>, not among the
  sources) is a parameter of the model: it returns the folded convolution or raises.
\<close>

type_synonym fold_routine = "conv_module \<Rightarrow> bn_module \<Rightarrow> string + conv_module"

type_synonym outcome = "(error + module) \<times> event list"

subsection \<open>Dictionaries\<close>

text \<open>
  A dictionary display \<open>{k1: v1, k2: v2, ...}\<close> is kept as the list of its items in
  source order. Python inserts them left to right, so a repeated key keeps its last
  value; \<open>d.get(k, None)\<close> is \<open>dict_of d k\<close>.
\<close>

definition dict_of :: "('k \<times> 'v) list \<Rightarrow> 'k \<rightharpoonup> 'v" where
  "dict_of items = map_of (rev items)"

definition fused_module_class_map :: "(py_class \<times> py_class) list" where
  "fused_module_class_map =
    [(SubMConv1d, SpconvBnNd),
     (SparseConv1d, SpconvBnNd),
     (SparseInverseConv1d, SpconvBnNd),
     (SubMConv2d, SpconvBnNd),
     (SparseConv2d, SpconvBnNd),
     (SparseInverseConv2d, SpconvBnNd),
     (SubMConv3d, SpconvBnNd),
     (SparseConv3d, SpconvBnNd),
     (SparseInverseConv3d, SpconvBnNd)]"

definition map_to_fused_module_train :: "(py_class \<times> py_class) list" where
  "map_to_fused_module_train =
    [(SubMConv1d, SpconvBnReLUNd),
     (SparseConv1d, SpconvBnReLUNd),
     (SparseInverseConv1d, SpconvBnReLUNd),
     (SubMConv2d, SpconvBnReLUNd),
     (SparseConv2d, SpconvBnReLUNd),
     (SparseInverseConv2d, SpconvBnReLUNd),
     (SubMConv3d, SpconvBnReLUNd),
     (SparseConv3d, SpconvBnReLUNd),
     (SparseInverseConv3d, SpconvBnReLUNd)]"

definition map_to_fused_module_eval :: "(py_class \<times> py_class) list" where
  "map_to_fused_module_eval =
    [(SubMConv1d, SpconvReLUNd),
     (SparseConv1d, SpconvReLUNd),
     (SparseInverseConv1d, SpconvReLUNd),
     (SubMConv2d, SpconvReLUNd),
     (SparseConv2d, SpconvReLUNd),
     (SparseInverseConv2d, SpconvReLUNd),
     (SubMConv3d, SpconvReLUNd),
     (SparseConv3d, SpconvReLUNd),
     (SparseInverseConv3d, SpconvReLUNd)]"

subsection \<open>The two fusers\<close>

text \<open>
  \<open>fuse_conv_bn(conv, bn)\<close>, lines 8 to 46. The mode assertion comes first; the training
  branch asserts the three conditions on the batch norm in the source's order, then
  looks \<open>type(conv)\<close> up; the eval branch calls the external routine and returns what
  it returns.
\<close>

definition fuse_conv_bn :: "fold_routine \<Rightarrow> conv_module \<Rightarrow> bn_module \<Rightarrow> outcome" where
  "fuse_conv_bn fuse_spconv_bn_eval conv bn =
    (if training conv \<noteq> training bn then
       (Inl (AssertionError ''Conv and BN both must be in the same mode (train or eval).''), [])
     else if training conv then
       (if num_features bn \<noteq> out_channels conv then
          (Inl (AssertionError ''Output channel of Conv2d must match num_features of BatchNorm2d''), [])
        else if \<not> affine bn then
          (Inl (AssertionError ''Only support fusing BatchNorm2d with affine set to True''), [])
        else if \<not> track_running_stats bn then
          (Inl (AssertionError
             ''Only support fusing BatchNorm2d with tracking_running_stats set to True''), [])
        else
          (case dict_of fused_module_class_map (cls conv) of
             Some fused_module_class \<Rightarrow>
               (Inr (Intrinsic fused_module_class [Conv conv, BatchNorm bn]),
                [Lookup (cls conv), Construct fused_module_class [Conv conv, BatchNorm bn]])
           | None \<Rightarrow>
               (Inl (NotImplementedError ''Cannot fuse train modules: '' [Conv conv, BatchNorm bn]),
                [Lookup (cls conv)])))
     else
       (case fuse_spconv_bn_eval conv bn of
          Inr fused_conv \<Rightarrow> (Inr (Conv fused_conv), [CallFold conv bn])
        | Inl e \<Rightarrow> (Inl (Propagated e), [CallFold conv bn])))"

text \<open>
  \<open>fuse_conv_bn_relu(conv, bn, relu)\<close>, lines 48 to 101. The chained comparison
  \<open>conv.training == bn.training == relu.training\<close> is the conjunction of the two
  comparisons. In the eval branch the lookup comes before the call of the external
  routine, which is made only when the class is found.
\<close>

definition fuse_conv_bn_relu ::
    "fold_routine \<Rightarrow> conv_module \<Rightarrow> bn_module \<Rightarrow> layer \<Rightarrow> outcome" where
  "fuse_conv_bn_relu fuse_spconv_bn_eval conv bn relu =
    (if \<not> (training conv = training bn \<and> training bn = training relu) then
       (Inl (AssertionError ''Conv and BN both must be in the same mode (train or eval).''), [])
     else if training conv then
       (if num_features bn \<noteq> out_channels conv then
          (Inl (AssertionError ''Output channel of Conv must match num_features of BatchNorm''), [])
        else if \<not> affine bn then
          (Inl (AssertionError ''Only support fusing BatchNorm with affine set to True''), [])
        else if \<not> track_running_stats bn then
          (Inl (AssertionError
             ''Only support fusing BatchNorm with tracking_running_stats set to True''), [])
        else
          (case dict_of map_to_fused_module_train (cls conv) of
             Some fused_module \<Rightarrow>
               (Inr (Intrinsic fused_module [Conv conv, BatchNorm bn, Activation relu]),
                [Lookup (cls conv),
                 Construct fused_module [Conv conv, BatchNorm bn, Activation relu]])
           | None \<Rightarrow>
               (Inl (NotImplementedError ''Cannot fuse train modules: ''
                       [Conv conv, BatchNorm bn, Activation relu]),
                [Lookup (cls conv)])))
     else
       (case dict_of map_to_fused_module_eval (cls conv) of
          Some fused_module \<Rightarrow>
            (case fuse_spconv_bn_eval conv bn of
               Inr fused_conv \<Rightarrow>
                 (Inr (Intrinsic fused_module [Conv fused_conv, Activation relu]),
                  [Lookup (cls conv), CallFold conv bn,
                   Construct fused_module [Conv fused_conv, Activation relu]])
             | Inl e \<Rightarrow> (Inl (Propagated e), [Lookup (cls conv), CallFold conv bn]))
        | None \<Rightarrow>
            (Inl (NotImplementedError ''Cannot fuse eval modules: ''
                    [Conv conv, BatchNorm bn, Activation relu]),
             [Lookup (cls conv)])))"

subsection \<open>The module-level tables\<close>

text \<open>
  The values of \<open>DEFAULT_SPCONV_OP_LIST_TO_FUSER_METHOD\<close> are the two functions above,
  by reference; its keys are tuples of classes.
\<close>

datatype fuser = Fuse_conv_bn | Fuse_conv_bn_relu

definition DEFAULT_SPCONV_OP_LIST_TO_FUSER_METHOD :: "(py_class list \<times> fuser) list" where
  "DEFAULT_SPCONV_OP_LIST_TO_FUSER_METHOD =
    [([SubMConv1d, BatchNorm1d], Fuse_conv_bn),
     ([SubMConv1d, BatchNorm1d, ReLU], Fuse_conv_bn_relu),
     ([SparseConv1d, BatchNorm1d], Fuse_conv_bn),
     ([SparseConv1d, BatchNorm1d, ReLU], Fuse_conv_bn_relu),
     ([SparseInverseConv1d, BatchNorm1d], Fuse_conv_bn),
     ([SparseInverseConv1d, BatchNorm1d, ReLU], Fuse_conv_bn_relu),
     ([SubMConv2d, BatchNorm1d], Fuse_conv_bn),
     ([SubMConv2d, BatchNorm1d, ReLU], Fuse_conv_bn_relu),
     ([SparseConv2d, BatchNorm1d], Fuse_conv_bn),
     ([SparseConv2d, BatchNorm1d, ReLU], Fuse_conv_bn_relu),
     ([SparseInverseConv2d, BatchNorm1d], Fuse_conv_bn),
     ([SparseInverseConv2d, BatchNorm1d, ReLU], Fuse_conv_bn_relu),
     ([SubMConv3d, BatchNorm1d], Fuse_conv_bn),
     ([SubMConv3d, BatchNorm1d, ReLU], Fuse_conv_bn_relu),
     ([SparseConv3d, BatchNorm1d], Fuse_conv_bn),
     ([SparseConv3d, BatchNorm1d, ReLU], Fuse_conv_bn_relu),
     ([SparseInverseConv3d, BatchNorm1d], Fuse_conv_bn),
     ([SparseInverseConv3d, BatchNorm1d, ReLU], Fuse_conv_bn_relu)]"

definition DEFAULT_SPCONV_QAT_MODULE_MAPPINGS :: "(py_class \<times> py_class) list" where
  "DEFAULT_SPCONV_QAT_MODULE_MAPPINGS =
    [(SpconvBnNd, SparseConvBn),
     (SpconvBnReLUNd, SparseConvBnReLU)]"

subsection \<open>The vocabulary of the specification\<close>

text \<open>
  The nine supported variants, in the order of the tables: submanifold, plain and
  inverse, in one, two and three dimensions.
\<close>

definition sparse_conv_variants :: "py_class list" where
  "sparse_conv_variants =
    [SubMConv1d, SparseConv1d, SparseInverseConv1d,
     SubMConv2d, SparseConv2d, SparseInverseConv2d,
     SubMConv3d, SparseConv3d, SparseInverseConv3d]"

text \<open>
  The specification's taxonomy of errors, read off the source's exceptions: the mode
  assertion is a \<open>ModeMismatch\<close>, the six assertions on the batch norm are
  \<open>ConfigurationError\<close>s, \<open>NotImplementedError\<close> is \<open>UnsupportedLayerType\<close>. An exception
  propagated from the external routine is none of them.
\<close>

datatype error_kind = ModeMismatch | ConfigurationError | UnsupportedLayerType

definition mode_message :: string where
  "mode_message = ''Conv and BN both must be in the same mode (train or eval).''"

definition channel_message :: "fuser \<Rightarrow> string" where
  "channel_message f = (case f of
      Fuse_conv_bn \<Rightarrow> ''Output channel of Conv2d must match num_features of BatchNorm2d''
    | Fuse_conv_bn_relu \<Rightarrow> ''Output channel of Conv must match num_features of BatchNorm'')"

definition affine_message :: "fuser \<Rightarrow> string" where
  "affine_message f = (case f of
      Fuse_conv_bn \<Rightarrow> ''Only support fusing BatchNorm2d with affine set to True''
    | Fuse_conv_bn_relu \<Rightarrow> ''Only support fusing BatchNorm with affine set to True'')"

definition stats_message :: "fuser \<Rightarrow> string" where
  "stats_message f = (case f of
      Fuse_conv_bn \<Rightarrow> ''Only support fusing BatchNorm2d with tracking_running_stats set to True''
    | Fuse_conv_bn_relu \<Rightarrow>
        ''Only support fusing BatchNorm with tracking_running_stats set to True'')"

definition configuration_messages :: "string list" where
  "configuration_messages =
    [channel_message Fuse_conv_bn, affine_message Fuse_conv_bn, stats_message Fuse_conv_bn,
     channel_message Fuse_conv_bn_relu, affine_message Fuse_conv_bn_relu,
     stats_message Fuse_conv_bn_relu]"

fun kind_of :: "error \<Rightarrow> error_kind option" where
  "kind_of (AssertionError msg) =
     (if msg = mode_message then Some ModeMismatch
      else if msg \<in> set configuration_messages then Some ConfigurationError
      else None)"
| "kind_of (NotImplementedError fmt ms) = Some UnsupportedLayerType"
| "kind_of (Propagated e) = None"

text \<open>
  An outcome raises when its result is an error, and raises an error of kind \<open>k\<close> when
  that error is one of the source's own with that kind.
\<close>

definition raises :: "outcome \<Rightarrow> bool" where
  "raises r = (case fst r of Inl e \<Rightarrow> True | Inr m \<Rightarrow> False)"

definition raises_kind :: "outcome \<Rightarrow> error_kind \<Rightarrow> bool" where
  "raises_kind r k = (case fst r of Inl e \<Rightarrow> kind_of e = Some k | Inr m \<Rightarrow> False)"

text \<open>Whether a call's events include a call of the external routine or of a constructor.\<close>

fun is_fold :: "event \<Rightarrow> bool" where
  "is_fold (CallFold c b) = True"
| "is_fold e = False"

fun is_construct :: "event \<Rightarrow> bool" where
  "is_construct (Construct c ms) = True"
| "is_construct e = False"

definition folded :: "outcome \<Rightarrow> bool" where
  "folded r = list_ex is_fold (snd r)"

definition constructed :: "outcome \<Rightarrow> bool" where
  "constructed r = list_ex is_construct (snd r)"

text \<open>
  Sample inputs for the concrete instances below: a submanifold convolution in three
  dimensions with sixteen output channels, a batch norm that fits it, an activation, a
  class the tables do not hold, and two stand-ins for the external routine (one returns
  the convolution it was given, one raises).
\<close>

definition sample_conv :: "bool \<Rightarrow> py_class \<Rightarrow> conv_module" where
  "sample_conv t c = \<lparr>cls = c, training = t, out_channels = 16\<rparr>"

definition sample_bn :: "bool \<Rightarrow> bn_module" where
  "sample_bn t =
    \<lparr>cls = BatchNorm1d, training = t, num_features = 16, affine = True,
     track_running_stats = True\<rparr>"

definition sample_relu :: "bool \<Rightarrow> layer" where
  "sample_relu t = \<lparr>cls = ReLU, training = t\<rparr>"

definition sample_subclass :: py_class where
  "sample_subclass = OtherClass ''MySubMConv3d'' [SubMConv3d]"

definition fold_keeps :: fold_routine where
  "fold_keeps conv bn = Inr conv"

definition fold_raises :: fold_routine where
  "fold_raises conv bn = Inl ''TypeError''"

section \<open>Properties\<close>

subsection \<open>The tables\<close>

lemma fused_module_class_map_keys: "map fst fused_module_class_map = sparse_conv_variants"
  by (simp add: fused_module_class_map_def sparse_conv_variants_def)

lemma map_to_fused_module_train_keys:
  "map fst map_to_fused_module_train = sparse_conv_variants"
  by (simp add: map_to_fused_module_train_def sparse_conv_variants_def)

lemma map_to_fused_module_eval_keys:
  "map fst map_to_fused_module_eval = sparse_conv_variants"
  by (simp add: map_to_fused_module_eval_def sparse_conv_variants_def)

lemma dict_of_None: "k \<notin> set (map fst items) \<Longrightarrow> dict_of items k = None"
  by (simp add: dict_of_def map_of_eq_None_iff)

lemma dict_of_const:
  assumes "k \<in> set (map fst items)" and "snd ` set items \<subseteq> {v}"
  shows "dict_of items k = Some v"
proof -
  from assms(1) obtain w where w: "map_of (rev items) k = Some w"
    by (cases "map_of (rev items) k") (auto simp: map_of_eq_None_iff)
  then have "(k, w) \<in> set items"
    using map_of_SomeD by fastforce
  with assms(2) have "w = v" by auto
  with w show ?thesis by (simp add: dict_of_def)
qed

lemma dict_of_SomeD: "dict_of items k = Some v \<Longrightarrow> (k, v) \<in> set items"
  using map_of_SomeD [of "rev items" k v] by (simp add: dict_of_def)

lemma dict_of_distinct:
  "distinct (map fst items) \<Longrightarrow> (k, v) \<in> set items \<Longrightarrow> dict_of items k = Some v"
  by (simp add: dict_of_def distinct_rev rev_map [symmetric])

lemma fused_module_class_map_get:
  "dict_of fused_module_class_map c =
     (if c \<in> set sparse_conv_variants then Some SpconvBnNd else None)"
proof (cases "c \<in> set sparse_conv_variants")
  case True
  then have "c \<in> set (map fst fused_module_class_map)"
    by (simp only: fused_module_class_map_keys)
  moreover have "snd ` set fused_module_class_map \<subseteq> {SpconvBnNd}"
    by (simp add: fused_module_class_map_def)
  ultimately show ?thesis using True by (simp add: dict_of_const)
next
  case False
  then have "c \<notin> set (map fst fused_module_class_map)"
    by (simp only: fused_module_class_map_keys not_False_eq_True)
  then show ?thesis using False by (simp add: dict_of_None)
qed

lemma map_to_fused_module_train_get:
  "dict_of map_to_fused_module_train c =
     (if c \<in> set sparse_conv_variants then Some SpconvBnReLUNd else None)"
proof (cases "c \<in> set sparse_conv_variants")
  case True
  then have "c \<in> set (map fst map_to_fused_module_train)"
    by (simp only: map_to_fused_module_train_keys)
  moreover have "snd ` set map_to_fused_module_train \<subseteq> {SpconvBnReLUNd}"
    by (simp add: map_to_fused_module_train_def)
  ultimately show ?thesis using True by (simp add: dict_of_const)
next
  case False
  then have "c \<notin> set (map fst map_to_fused_module_train)"
    by (simp only: map_to_fused_module_train_keys not_False_eq_True)
  then show ?thesis using False by (simp add: dict_of_None)
qed

lemma map_to_fused_module_eval_get:
  "dict_of map_to_fused_module_eval c =
     (if c \<in> set sparse_conv_variants then Some SpconvReLUNd else None)"
proof (cases "c \<in> set sparse_conv_variants")
  case True
  then have "c \<in> set (map fst map_to_fused_module_eval)"
    by (simp only: map_to_fused_module_eval_keys)
  moreover have "snd ` set map_to_fused_module_eval \<subseteq> {SpconvReLUNd}"
    by (simp add: map_to_fused_module_eval_def)
  ultimately show ?thesis using True by (simp add: dict_of_const)
next
  case False
  then have "c \<notin> set (map fst map_to_fused_module_eval)"
    by (simp only: map_to_fused_module_eval_keys not_False_eq_True)
  then show ?thesis using False by (simp add: dict_of_None)
qed

lemma other_class_unsupported: "OtherClass name bases \<notin> set sparse_conv_variants"
  by (simp add: sparse_conv_variants_def)

lemma op_list_keys:
  "map fst DEFAULT_SPCONV_OP_LIST_TO_FUSER_METHOD =
     concat (map (\<lambda>c. [[c, BatchNorm1d], [c, BatchNorm1d, ReLU]]) sparse_conv_variants)"
  by (simp add: DEFAULT_SPCONV_OP_LIST_TO_FUSER_METHOD_def sparse_conv_variants_def)

lemma op_list_distinct: "distinct (map fst DEFAULT_SPCONV_OP_LIST_TO_FUSER_METHOD)"
  by (simp add: DEFAULT_SPCONV_OP_LIST_TO_FUSER_METHOD_def)

lemma op_list_unfold:
  "DEFAULT_SPCONV_OP_LIST_TO_FUSER_METHOD =
     concat (map (\<lambda>c. [([c, BatchNorm1d], Fuse_conv_bn),
                         ([c, BatchNorm1d, ReLU], Fuse_conv_bn_relu)]) sparse_conv_variants)"
  by (simp add: DEFAULT_SPCONV_OP_LIST_TO_FUSER_METHOD_def sparse_conv_variants_def)

lemma op_list_items:
  "set DEFAULT_SPCONV_OP_LIST_TO_FUSER_METHOD =
     (\<lambda>c. ([c, BatchNorm1d], Fuse_conv_bn)) ` set sparse_conv_variants \<union>
     (\<lambda>c. ([c, BatchNorm1d, ReLU], Fuse_conv_bn_relu)) ` set sparse_conv_variants"
  unfolding op_list_unfold by auto

lemma qat_mapping_get:
  "dict_of DEFAULT_SPCONV_QAT_MODULE_MAPPINGS c =
     (if c = SpconvBnNd then Some SparseConvBn
      else if c = SpconvBnReLUNd then Some SparseConvBnReLU else None)"
  by (simp add: DEFAULT_SPCONV_QAT_MODULE_MAPPINGS_def dict_of_def)

subsection \<open>The messages\<close>

lemma kind_of_mode: "kind_of (AssertionError mode_message) = Some ModeMismatch"
  by simp

lemma configuration_messages_distinct:
  "distinct configuration_messages \<and> mode_message \<notin> set configuration_messages"
  by (simp add: configuration_messages_def channel_message_def affine_message_def
      stats_message_def mode_message_def)

lemma kind_of_configuration:
  "kind_of (AssertionError (channel_message f)) = Some ConfigurationError"
  "kind_of (AssertionError (affine_message f)) = Some ConfigurationError"
  "kind_of (AssertionError (stats_message f)) = Some ConfigurationError"
  by (cases f; simp add: configuration_messages_def channel_message_def affine_message_def
      stats_message_def mode_message_def)+

subsection \<open>Unsupported classes\<close>

text \<open>
  C1, as amended. Let the class of \<open>conv\<close> be none of the nine variants; a strict
  subclass of a variant is such a class, since the tables are keyed by the class itself.
  Then \<open>fuse_conv_bn_relu\<close> raises in every mode and \<open>fuse_conv_bn\<close> raises in training
  mode, and neither constructs a module. The error is the \<open>NotImplementedError\<close> as soon
  as the mode assertion and, in training mode, the three assertions on the batch norm
  have passed; the only event is then the lookup. In eval mode \<open>fuse_conv_bn\<close> makes no
  lookup: its outcome is that of the external routine.
\<close>

theorem unsupported_class_refused_after_checks:
  assumes "cls conv \<notin> set sparse_conv_variants"
  shows
   "(training conv \<and> training bn \<and>
     num_features bn = out_channels conv \<and> affine bn \<and> track_running_stats bn \<longrightarrow>
       fuse_conv_bn ext conv bn =
         (Inl (NotImplementedError ''Cannot fuse train modules: '' [Conv conv, BatchNorm bn]),
          [Lookup (cls conv)])) \<and>
    (training conv \<and> training bn \<and> training relu \<and>
     num_features bn = out_channels conv \<and> affine bn \<and> track_running_stats bn \<longrightarrow>
       fuse_conv_bn_relu ext conv bn relu =
         (Inl (NotImplementedError ''Cannot fuse train modules: ''
                 [Conv conv, BatchNorm bn, Activation relu]),
          [Lookup (cls conv)])) \<and>
    (\<not> training conv \<and> \<not> training bn \<and> \<not> training relu \<longrightarrow>
       fuse_conv_bn_relu ext conv bn relu =
         (Inl (NotImplementedError ''Cannot fuse eval modules: ''
                 [Conv conv, BatchNorm bn, Activation relu]),
          [Lookup (cls conv)])) \<and>
    (training conv \<longrightarrow> raises (fuse_conv_bn ext conv bn)) \<and>
    raises (fuse_conv_bn_relu ext conv bn relu) \<and>
    \<not> constructed (fuse_conv_bn ext conv bn) \<and>
    \<not> constructed (fuse_conv_bn_relu ext conv bn relu) \<and>
    (\<not> training conv \<and> \<not> training bn \<longrightarrow>
       fuse_conv_bn ext conv bn =
         (case ext conv bn of
            Inr fused_conv \<Rightarrow> (Inr (Conv fused_conv), [CallFold conv bn])
          | Inl e \<Rightarrow> (Inl (Propagated e), [CallFold conv bn])))"
proof -
  have g1: "dict_of fused_module_class_map (cls conv) = None"
    using assms by (simp only: fused_module_class_map_get if_False)
  have g2: "dict_of map_to_fused_module_train (cls conv) = None"
    using assms by (simp only: map_to_fused_module_train_get if_False)
  have g3: "dict_of map_to_fused_module_eval (cls conv) = None"
    using assms by (simp only: map_to_fused_module_eval_get if_False)
  have bn: "fuse_conv_bn ext conv bn =
         (Inl (NotImplementedError ''Cannot fuse train modules: '' [Conv conv, BatchNorm bn]),
          [Lookup (cls conv)])"
    if "training conv" "training bn" "num_features bn = out_channels conv" "affine bn"
      "track_running_stats bn"
    using that g1 by (simp add: fuse_conv_bn_def)
  have relu_train: "fuse_conv_bn_relu ext conv bn relu =
         (Inl (NotImplementedError ''Cannot fuse train modules: ''
                 [Conv conv, BatchNorm bn, Activation relu]),
          [Lookup (cls conv)])"
    if "training conv" "training bn" "training relu" "num_features bn = out_channels conv"
      "affine bn" "track_running_stats bn"
    using that g2 by (simp add: fuse_conv_bn_relu_def)
  have relu_eval: "fuse_conv_bn_relu ext conv bn relu =
         (Inl (NotImplementedError ''Cannot fuse eval modules: ''
                 [Conv conv, BatchNorm bn, Activation relu]),
          [Lookup (cls conv)])"
    if "\<not> training conv" "\<not> training bn" "\<not> training relu"
    using that g3 by (simp add: fuse_conv_bn_relu_def)
  have r1: "raises (fuse_conv_bn ext conv bn)" if "training conv"
    using that g1 by (simp add: fuse_conv_bn_def raises_def)
  have r2: "raises (fuse_conv_bn_relu ext conv bn relu)"
    using g2 g3 by (simp add: fuse_conv_bn_relu_def raises_def)
  have c1: "\<not> constructed (fuse_conv_bn ext conv bn)"
    using g1 by (simp add: fuse_conv_bn_def constructed_def split: sum.splits)
  have c2: "\<not> constructed (fuse_conv_bn_relu ext conv bn relu)"
    using g2 g3 by (simp add: fuse_conv_bn_relu_def constructed_def)
  have ev: "fuse_conv_bn ext conv bn =
         (case ext conv bn of
            Inr fused_conv \<Rightarrow> (Inr (Conv fused_conv), [CallFold conv bn])
          | Inl e \<Rightarrow> (Inl (Propagated e), [CallFold conv bn]))"
    if "\<not> training conv" "\<not> training bn"
    using that by (simp add: fuse_conv_bn_def)
  from bn relu_train relu_eval r1 r2 c1 c2 ev show ?thesis by blast
qed

theorem unsupported_class_refused_after_checks_witness:
  "sample_subclass \<notin> set sparse_conv_variants \<and>
   fuse_conv_bn fold_keeps (sample_conv True sample_subclass) (sample_bn True) =
     (Inl (NotImplementedError ''Cannot fuse train modules: ''
        [Conv (sample_conv True sample_subclass), BatchNorm (sample_bn True)]),
      [Lookup sample_subclass]) \<and>
   fuse_conv_bn_relu fold_keeps (sample_conv True sample_subclass) (sample_bn True)
       (sample_relu True) =
     (Inl (NotImplementedError ''Cannot fuse train modules: ''
        [Conv (sample_conv True sample_subclass), BatchNorm (sample_bn True),
         Activation (sample_relu True)]),
      [Lookup sample_subclass]) \<and>
   fuse_conv_bn_relu fold_keeps (sample_conv False sample_subclass) (sample_bn False)
       (sample_relu False) =
     (Inl (NotImplementedError ''Cannot fuse eval modules: ''
        [Conv (sample_conv False sample_subclass), BatchNorm (sample_bn False),
         Activation (sample_relu False)]),
      [Lookup sample_subclass]) \<and>
   fuse_conv_bn fold_keeps (sample_conv False sample_subclass) (sample_bn False) =
     (Inr (Conv (sample_conv False sample_subclass)),
      [CallFold (sample_conv False sample_subclass) (sample_bn False)])"
proof -
  have u: "cls (sample_conv t sample_subclass) \<notin> set sparse_conv_variants" for t
    by (simp add: sample_conv_def sample_subclass_def other_class_unsupported)
  show ?thesis
    using u [of True]
      unsupported_class_refused_after_checks [OF u [of True],
        where bn = "sample_bn True" and ext = fold_keeps and relu = "sample_relu True"]
      unsupported_class_refused_after_checks [OF u [of False],
        where bn = "sample_bn False" and ext = fold_keeps and relu = "sample_relu False"]
    by (simp add: sample_conv_def sample_bn_def sample_relu_def fold_keeps_def)
qed

text \<open>
  The claim as first stated fails twice. In eval mode \<open>fuse_conv_bn\<close> returns the module
  the external routine returns, for a subclass of \<open>SubMConv3d\<close> that no table holds; and
  in training mode a batch norm without affine parameters raises the assertion on
  \<open>affine\<close> before the class is looked up.
\<close>

theorem unsupported_class_counterexample:
  "cls (sample_conv False sample_subclass) \<notin> set sparse_conv_variants \<and>
   \<not> training (sample_conv False sample_subclass) \<and>
   fuse_conv_bn fold_keeps (sample_conv False sample_subclass) (sample_bn False) =
     (Inr (Conv (sample_conv False sample_subclass)),
      [CallFold (sample_conv False sample_subclass) (sample_bn False)]) \<and>
   training (sample_conv True sample_subclass) \<and>
   fuse_conv_bn fold_keeps (sample_conv True sample_subclass)
       ((sample_bn True)\<lparr>affine := False\<rparr>) =
     (Inl (AssertionError ''Only support fusing BatchNorm2d with affine set to True''), []) \<and>
   kind_of (AssertionError ''Only support fusing BatchNorm2d with affine set to True'') =
     Some ConfigurationError"
  by (simp add: fuse_conv_bn_def sample_conv_def sample_bn_def sample_subclass_def
      fold_keeps_def sparse_conv_variants_def mode_message_def configuration_messages_def
      channel_message_def affine_message_def stats_message_def)

subsection \<open>Mode mismatch\<close>

text \<open>
  C2. When the training flags of the convolution and the batch norm differ,
  \<open>fuse_conv_bn\<close> raises the mode assertion; when the three flags of the convolution,
  the batch norm and the activation are not all equal, \<open>fuse_conv_bn_relu\<close> raises it.
  This holds for every class, every channel count, every batch-norm configuration and
  every external routine, and the call has made no lookup, no call of the external
  routine and no construction: the mode check is the first thing either function does.
\<close>

theorem mode_mismatch_raises_first:
  "(training conv \<noteq> training bn \<longrightarrow>
      fuse_conv_bn ext conv bn = (Inl (AssertionError mode_message), [])) \<and>
   (\<not> (training conv = training bn \<and> training bn = training relu) \<longrightarrow>
      fuse_conv_bn_relu ext conv bn relu = (Inl (AssertionError mode_message), [])) \<and>
   kind_of (AssertionError mode_message) = Some ModeMismatch"
  by (simp add: fuse_conv_bn_def fuse_conv_bn_relu_def mode_message_def)

theorem mode_mismatch_raises_first_witness:
  "training (sample_conv True SubMConv3d) \<noteq> training (sample_bn False) \<and>
   fuse_conv_bn fold_keeps (sample_conv True SubMConv3d) (sample_bn False) =
     (Inl (AssertionError mode_message), []) \<and>
   \<not> (training (sample_conv True SubMConv3d) = training (sample_bn True) \<and>
      training (sample_bn True) = training (sample_relu False)) \<and>
   fuse_conv_bn_relu fold_keeps (sample_conv True SubMConv3d) (sample_bn True) (sample_relu False) =
     (Inl (AssertionError mode_message), [])"
  using mode_mismatch_raises_first [of "sample_conv True SubMConv3d" "sample_bn False" fold_keeps]
    mode_mismatch_raises_first [of "sample_conv True SubMConv3d" "sample_bn True" fold_keeps
      "sample_relu False"]
  by (simp add: sample_conv_def sample_bn_def sample_relu_def)

subsection \<open>The assertions on the batch norm\<close>

text \<open>
  C3, as amended. Once the mode assertion has passed in training mode (for
  \<open>fuse_conv_bn\<close>: the flags of the convolution and the batch norm set; for
  \<open>fuse_conv_bn_relu\<close>: those two and the flag of the activation set) each of the two
  functions asserts \<open>bn.num_features == conv.out_channels\<close>, then \<open>bn.affine\<close>, then
  \<open>bn.track_running_stats\<close>. The first condition that fails raises an \<open>AssertionError\<close>
  with that condition's own message, nothing has been looked up or built, and whenever
  one of the three fails the call raises a configuration error. The three messages of a
  function are pairwise distinct.
\<close>

theorem training_asserts_bn_configuration:
  "(training conv \<and> training bn \<longrightarrow>
      (num_features bn \<noteq> out_channels conv \<longrightarrow>
         fuse_conv_bn ext conv bn = (Inl (AssertionError (channel_message Fuse_conv_bn)), [])) \<and>
      (num_features bn = out_channels conv \<and> \<not> affine bn \<longrightarrow>
         fuse_conv_bn ext conv bn = (Inl (AssertionError (affine_message Fuse_conv_bn)), [])) \<and>
      (num_features bn = out_channels conv \<and> affine bn \<and> \<not> track_running_stats bn \<longrightarrow>
         fuse_conv_bn ext conv bn = (Inl (AssertionError (stats_message Fuse_conv_bn)), [])) \<and>
      (\<not> (num_features bn = out_channels conv \<and> affine bn \<and> track_running_stats bn) \<longrightarrow>
         raises_kind (fuse_conv_bn ext conv bn) ConfigurationError)) \<and>
   (training conv \<and> training bn \<and> training relu \<longrightarrow>
      (num_features bn \<noteq> out_channels conv \<longrightarrow>
         fuse_conv_bn_relu ext conv bn relu =
           (Inl (AssertionError (channel_message Fuse_conv_bn_relu)), [])) \<and>
      (num_features bn = out_channels conv \<and> \<not> affine bn \<longrightarrow>
         fuse_conv_bn_relu ext conv bn relu =
           (Inl (AssertionError (affine_message Fuse_conv_bn_relu)), [])) \<and>
      (num_features bn = out_channels conv \<and> affine bn \<and> \<not> track_running_stats bn \<longrightarrow>
         fuse_conv_bn_relu ext conv bn relu =
           (Inl (AssertionError (stats_message Fuse_conv_bn_relu)), [])) \<and>
      (\<not> (num_features bn = out_channels conv \<and> affine bn \<and> track_running_stats bn) \<longrightarrow>
         raises_kind (fuse_conv_bn_relu ext conv bn relu) ConfigurationError)) \<and>
   distinct [channel_message Fuse_conv_bn, affine_message Fuse_conv_bn, stats_message Fuse_conv_bn] \<and>
   distinct [channel_message Fuse_conv_bn_relu, affine_message Fuse_conv_bn_relu,
             stats_message Fuse_conv_bn_relu]"
proof -
  have bn: "fuse_conv_bn ext conv bn =
      (if num_features bn \<noteq> out_channels conv then
         (Inl (AssertionError (channel_message Fuse_conv_bn)), [])
       else if \<not> affine bn then (Inl (AssertionError (affine_message Fuse_conv_bn)), [])
       else (Inl (AssertionError (stats_message Fuse_conv_bn)), []))"
    if "training conv" "training bn"
       "\<not> (num_features bn = out_channels conv \<and> affine bn \<and> track_running_stats bn)"
    using that
    by (auto simp add: fuse_conv_bn_def channel_message_def affine_message_def stats_message_def)
  have relu: "fuse_conv_bn_relu ext conv bn relu =
      (if num_features bn \<noteq> out_channels conv then
         (Inl (AssertionError (channel_message Fuse_conv_bn_relu)), [])
       else if \<not> affine bn then (Inl (AssertionError (affine_message Fuse_conv_bn_relu)), [])
       else (Inl (AssertionError (stats_message Fuse_conv_bn_relu)), []))"
    if "training conv" "training bn" "training relu"
       "\<not> (num_features bn = out_channels conv \<and> affine bn \<and> track_running_stats bn)"
    using that
    by (auto simp add: fuse_conv_bn_relu_def channel_message_def affine_message_def
        stats_message_def)
  have d: "distinct [channel_message f, affine_message f, stats_message f]" for f
    by (cases f) (simp_all add: channel_message_def affine_message_def stats_message_def)
  show ?thesis
    using bn relu d [of Fuse_conv_bn] d [of Fuse_conv_bn_relu]
    by (auto simp add: raises_kind_def kind_of_configuration simp del: kind_of.simps distinct.simps)
qed

theorem training_asserts_bn_configuration_witness:
  "training (sample_conv True SubMConv3d) \<and> training (sample_bn True) \<and>
   training (sample_relu True) \<and>
   num_features ((sample_bn True)\<lparr>num_features := 8\<rparr>) \<noteq> out_channels (sample_conv True SubMConv3d) \<and>
   fuse_conv_bn fold_keeps (sample_conv True SubMConv3d) ((sample_bn True)\<lparr>num_features := 8\<rparr>) =
     (Inl (AssertionError (channel_message Fuse_conv_bn)), []) \<and>
   \<not> affine ((sample_bn True)\<lparr>affine := False\<rparr>) \<and>
   fuse_conv_bn_relu fold_keeps (sample_conv True SubMConv3d) ((sample_bn True)\<lparr>affine := False\<rparr>)
       (sample_relu True) =
     (Inl (AssertionError (affine_message Fuse_conv_bn_relu)), []) \<and>
   \<not> track_running_stats ((sample_bn True)\<lparr>track_running_stats := False\<rparr>) \<and>
   fuse_conv_bn fold_keeps (sample_conv True SubMConv3d)
       ((sample_bn True)\<lparr>track_running_stats := False\<rparr>) =
     (Inl (AssertionError (stats_message Fuse_conv_bn)), []) \<and>
   raises_kind (fuse_conv_bn fold_keeps (sample_conv True SubMConv3d)
       ((sample_bn True)\<lparr>track_running_stats := False\<rparr>)) ConfigurationError"
  using
    training_asserts_bn_configuration [of "sample_conv True SubMConv3d"
      "(sample_bn True)\<lparr>num_features := 8\<rparr>" fold_keeps "sample_relu True"]
    training_asserts_bn_configuration [of "sample_conv True SubMConv3d"
      "(sample_bn True)\<lparr>affine := False\<rparr>" fold_keeps "sample_relu True"]
    training_asserts_bn_configuration [of "sample_conv True SubMConv3d"
      "(sample_bn True)\<lparr>track_running_stats := False\<rparr>" fold_keeps "sample_relu True"]
  by (simp add: sample_conv_def sample_bn_def sample_relu_def raises_kind_def
      kind_of_configuration del: distinct.simps kind_of.simps)

text \<open>
  With the flags of the convolution and the batch norm set and the flag of the activation
  clear, \<open>fuse_conv_bn_relu\<close> raises the mode assertion of line 61 and never reaches the
  assertions on the batch norm: a batch norm without affine parameters then gets a mode
  mismatch, not a configuration error.
\<close>

theorem training_asserts_bn_configuration_counterexample:
  "training (sample_conv True SubMConv3d) \<and>
   training ((sample_bn True)\<lparr>affine := False\<rparr>) \<and>
   \<not> affine ((sample_bn True)\<lparr>affine := False\<rparr>) \<and>
   fuse_conv_bn_relu fold_keeps (sample_conv True SubMConv3d)
       ((sample_bn True)\<lparr>affine := False\<rparr>) (sample_relu False) =
     (Inl (AssertionError ''Conv and BN both must be in the same mode (train or eval).''), []) \<and>
   kind_of (AssertionError ''Conv and BN both must be in the same mode (train or eval).'') =
     Some ModeMismatch \<and>
   \<not> raises_kind (fuse_conv_bn_relu fold_keeps (sample_conv True SubMConv3d)
       ((sample_bn True)\<lparr>affine := False\<rparr>) (sample_relu False)) ConfigurationError"
  by (simp add: fuse_conv_bn_relu_def sample_conv_def sample_bn_def sample_relu_def
      raises_kind_def mode_message_def)

subsection \<open>Fusion in training mode\<close>

text \<open>
  C4. For a convolution of one of the nine variants, in training mode, with a batch norm
  that is affine, tracks its running statistics and has as many features as the
  convolution has output channels, \<open>fuse_conv_bn\<close> returns the \<open>SpconvBnNd\<close> built from
  \<open>(conv, bn)\<close>, and \<open>fuse_conv_bn_relu\<close> (the activation in training mode too) returns
  the \<open>SpconvBnReLUNd\<close> built from \<open>(conv, bn, relu)\<close>. The events are the lookup and
  the construction, and the external routine is not called.
\<close>

theorem training_fuses_supported_variants:
  assumes "cls conv \<in> set sparse_conv_variants"
    and "training conv" and "training bn"
    and "num_features bn = out_channels conv" and "affine bn" and "track_running_stats bn"
  shows "fuse_conv_bn ext conv bn =
      (Inr (Intrinsic SpconvBnNd [Conv conv, BatchNorm bn]),
       [Lookup (cls conv), Construct SpconvBnNd [Conv conv, BatchNorm bn]]) \<and>
    (training relu \<longrightarrow>
       fuse_conv_bn_relu ext conv bn relu =
         (Inr (Intrinsic SpconvBnReLUNd [Conv conv, BatchNorm bn, Activation relu]),
          [Lookup (cls conv),
           Construct SpconvBnReLUNd [Conv conv, BatchNorm bn, Activation relu]]))"
proof -
  have "dict_of fused_module_class_map (cls conv) = Some SpconvBnNd"
    using assms(1) by (simp only: fused_module_class_map_get if_True)
  moreover have "dict_of map_to_fused_module_train (cls conv) = Some SpconvBnReLUNd"
    using assms(1) by (simp only: map_to_fused_module_train_get if_True)
  ultimately show ?thesis
    using assms(2-) by (simp add: fuse_conv_bn_def fuse_conv_bn_relu_def)
qed

theorem training_fuses_supported_variants_witness:
  "list_all (\<lambda>c.
      fuse_conv_bn fold_raises (sample_conv True c) (sample_bn True) =
        (Inr (Intrinsic SpconvBnNd [Conv (sample_conv True c), BatchNorm (sample_bn True)]),
         [Lookup c, Construct SpconvBnNd [Conv (sample_conv True c), BatchNorm (sample_bn True)]]) \<and>
      fuse_conv_bn_relu fold_raises (sample_conv True c) (sample_bn True) (sample_relu True) =
        (Inr (Intrinsic SpconvBnReLUNd
                [Conv (sample_conv True c), BatchNorm (sample_bn True), Activation (sample_relu True)]),
         [Lookup c,
          Construct SpconvBnReLUNd
            [Conv (sample_conv True c), BatchNorm (sample_bn True), Activation (sample_relu True)]]))
    sparse_conv_variants"
proof -
  have "fuse_conv_bn fold_raises (sample_conv True c) (sample_bn True) =
        (Inr (Intrinsic SpconvBnNd [Conv (sample_conv True c), BatchNorm (sample_bn True)]),
         [Lookup c, Construct SpconvBnNd [Conv (sample_conv True c), BatchNorm (sample_bn True)]]) \<and>
      fuse_conv_bn_relu fold_raises (sample_conv True c) (sample_bn True) (sample_relu True) =
        (Inr (Intrinsic SpconvBnReLUNd
                [Conv (sample_conv True c), BatchNorm (sample_bn True), Activation (sample_relu True)]),
         [Lookup c,
          Construct SpconvBnReLUNd
            [Conv (sample_conv True c), BatchNorm (sample_bn True), Activation (sample_relu True)]])"
    if "c \<in> set sparse_conv_variants" for c
    using that
      training_fuses_supported_variants [of "sample_conv True c" "sample_bn True" fold_raises
        "sample_relu True"]
    by (simp add: sample_conv_def sample_bn_def sample_relu_def)
  then show ?thesis
    unfolding list_all_iff by blast
qed

subsection \<open>Fusion with an activation in eval mode\<close>

text \<open>
  C5. In eval mode, for a convolution of one of the nine variants, \<open>fuse_conv_bn_relu\<close>
  looks the class up, then calls \<open>fuse_spconv_bn_eval(conv, bn)\<close>, then builds the
  \<open>SpconvReLUNd\<close> from the folded convolution and the activation and returns it. When
  the external routine raises, its exception propagates after the lookup and the call,
  and nothing is built.
\<close>

theorem eval_relu_folds_then_wraps:
  assumes "cls conv \<in> set sparse_conv_variants"
    and "\<not> training conv" and "\<not> training bn" and "\<not> training relu"
  shows "fuse_conv_bn_relu ext conv bn relu =
      (case ext conv bn of
         Inr fused_conv \<Rightarrow>
           (Inr (Intrinsic SpconvReLUNd [Conv fused_conv, Activation relu]),
            [Lookup (cls conv), CallFold conv bn,
             Construct SpconvReLUNd [Conv fused_conv, Activation relu]])
       | Inl e \<Rightarrow> (Inl (Propagated e), [Lookup (cls conv), CallFold conv bn]))"
proof -
  have "dict_of map_to_fused_module_eval (cls conv) = Some SpconvReLUNd"
    using assms(1) by (simp only: map_to_fused_module_eval_get if_True)
  then show ?thesis
    using assms(2-) by (simp add: fuse_conv_bn_relu_def)
qed

theorem eval_relu_folds_then_wraps_witness:
  "list_all (\<lambda>c.
      fuse_conv_bn_relu fold_keeps (sample_conv False c) (sample_bn False) (sample_relu False) =
        (Inr (Intrinsic SpconvReLUNd [Conv (sample_conv False c), Activation (sample_relu False)]),
         [Lookup c, CallFold (sample_conv False c) (sample_bn False),
          Construct SpconvReLUNd [Conv (sample_conv False c), Activation (sample_relu False)]]) \<and>
      fuse_conv_bn_relu fold_raises (sample_conv False c) (sample_bn False) (sample_relu False) =
        (Inl (Propagated ''TypeError''),
         [Lookup c, CallFold (sample_conv False c) (sample_bn False)]))
    sparse_conv_variants"
proof -
  have "fuse_conv_bn_relu fold_keeps (sample_conv False c) (sample_bn False) (sample_relu False) =
        (Inr (Intrinsic SpconvReLUNd [Conv (sample_conv False c), Activation (sample_relu False)]),
         [Lookup c, CallFold (sample_conv False c) (sample_bn False),
          Construct SpconvReLUNd [Conv (sample_conv False c), Activation (sample_relu False)]]) \<and>
      fuse_conv_bn_relu fold_raises (sample_conv False c) (sample_bn False) (sample_relu False) =
        (Inl (Propagated ''TypeError''),
         [Lookup c, CallFold (sample_conv False c) (sample_bn False)])"
    if "c \<in> set sparse_conv_variants" for c
    using that
      eval_relu_folds_then_wraps [of "sample_conv False c" "sample_bn False" "sample_relu False"
        fold_keeps]
      eval_relu_folds_then_wraps [of "sample_conv False c" "sample_bn False" "sample_relu False"
        fold_raises]
    by (simp add: sample_conv_def sample_bn_def sample_relu_def fold_keeps_def fold_raises_def)
  then show ?thesis
    unfolding list_all_iff by blast
qed

subsection \<open>The table of fusers\<close>

text \<open>
  C6. \<open>DEFAULT_SPCONV_OP_LIST_TO_FUSER_METHOD\<close> has eighteen items with pairwise distinct
  keys: for each of the nine variants, in the tables' order, the pair
  \<open>(variant, BatchNorm1d)\<close> and the triple \<open>(variant, BatchNorm1d, ReLU)\<close>, and no other
  key. Every pair maps to \<open>fuse_conv_bn\<close> and every triple to \<open>fuse_conv_bn_relu\<close>.
\<close>

theorem op_list_table_complete:
  "length DEFAULT_SPCONV_OP_LIST_TO_FUSER_METHOD = 18 \<and>
   distinct (map fst DEFAULT_SPCONV_OP_LIST_TO_FUSER_METHOD) \<and>
   length sparse_conv_variants = 9 \<and> distinct sparse_conv_variants \<and>
   map fst DEFAULT_SPCONV_OP_LIST_TO_FUSER_METHOD =
     concat (map (\<lambda>c. [[c, BatchNorm1d], [c, BatchNorm1d, ReLU]]) sparse_conv_variants) \<and>
   (\<forall>c \<in> set sparse_conv_variants.
      dict_of DEFAULT_SPCONV_OP_LIST_TO_FUSER_METHOD [c, BatchNorm1d] = Some Fuse_conv_bn \<and>
      dict_of DEFAULT_SPCONV_OP_LIST_TO_FUSER_METHOD [c, BatchNorm1d, ReLU] =
        Some Fuse_conv_bn_relu) \<and>
   (\<forall>key f. dict_of DEFAULT_SPCONV_OP_LIST_TO_FUSER_METHOD key = Some f \<longrightarrow>
      (\<exists>c \<in> set sparse_conv_variants.
         key = [c, BatchNorm1d] \<and> f = Fuse_conv_bn \<or>
         key = [c, BatchNorm1d, ReLU] \<and> f = Fuse_conv_bn_relu)) \<and>
   (\<forall>key f. dict_of DEFAULT_SPCONV_OP_LIST_TO_FUSER_METHOD key = Some f \<longrightarrow>
      (length key = 2 \<longrightarrow> f = Fuse_conv_bn) \<and> (length key = 3 \<longrightarrow> f = Fuse_conv_bn_relu))"
proof -
  have n: "length DEFAULT_SPCONV_OP_LIST_TO_FUSER_METHOD = 18"
    by (simp add: DEFAULT_SPCONV_OP_LIST_TO_FUSER_METHOD_def)
  have v: "length sparse_conv_variants = 9 \<and> distinct sparse_conv_variants"
    by (simp add: sparse_conv_variants_def)
  have present: "dict_of DEFAULT_SPCONV_OP_LIST_TO_FUSER_METHOD [c, BatchNorm1d] =
        Some Fuse_conv_bn \<and>
      dict_of DEFAULT_SPCONV_OP_LIST_TO_FUSER_METHOD [c, BatchNorm1d, ReLU] =
        Some Fuse_conv_bn_relu"
    if "c \<in> set sparse_conv_variants" for c
    using that by (simp add: dict_of_distinct [OF op_list_distinct] op_list_items)
  have only: "\<exists>c \<in> set sparse_conv_variants.
         key = [c, BatchNorm1d] \<and> f = Fuse_conv_bn \<or>
         key = [c, BatchNorm1d, ReLU] \<and> f = Fuse_conv_bn_relu"
    if "dict_of DEFAULT_SPCONV_OP_LIST_TO_FUSER_METHOD key = Some f" for key f
    using dict_of_SomeD [OF that] unfolding op_list_items by blast
  have arity: "(length key = 2 \<longrightarrow> f = Fuse_conv_bn) \<and> (length key = 3 \<longrightarrow> f = Fuse_conv_bn_relu)"
    if "dict_of DEFAULT_SPCONV_OP_LIST_TO_FUSER_METHOD key = Some f" for key f
    using only [OF that] by auto
  from n v op_list_distinct op_list_keys present only arity show ?thesis
    by blast
qed

theorem op_list_table_complete_witness:
  "SparseInverseConv2d \<in> set sparse_conv_variants \<and>
   dict_of DEFAULT_SPCONV_OP_LIST_TO_FUSER_METHOD [SparseInverseConv2d, BatchNorm1d] =
     Some Fuse_conv_bn \<and>
   dict_of DEFAULT_SPCONV_OP_LIST_TO_FUSER_METHOD [SparseInverseConv2d, BatchNorm1d, ReLU] =
     Some Fuse_conv_bn_relu \<and>
   length [SparseInverseConv2d, BatchNorm1d] = 2 \<and>
   length [SparseInverseConv2d, BatchNorm1d, ReLU] = 3"
proof -
  have m: "SparseInverseConv2d \<in> set sparse_conv_variants"
    by (simp add: sparse_conv_variants_def)
  with op_list_table_complete show ?thesis
    by simp
qed

subsection \<open>No validation of the batch norm in eval mode\<close>

text \<open>
  C8. In eval mode, for a convolution of one of the nine variants, \<open>fuse_conv_bn_relu\<close>
  never raises a configuration error, whatever \<open>bn.affine\<close>, \<open>bn.track_running_stats\<close>
  and \<open>bn.num_features\<close> are: it returns the wrapper whenever the external routine
  returns, and raises exactly when the external routine does.
\<close>

theorem eval_relu_skips_bn_validation:
  assumes "cls conv \<in> set sparse_conv_variants"
    and "\<not> training conv" and "\<not> training bn" and "\<not> training relu"
  shows "\<not> raises_kind (fuse_conv_bn_relu ext conv bn relu) ConfigurationError \<and>
    (ext conv bn = Inr fused_conv \<longrightarrow>
       fst (fuse_conv_bn_relu ext conv bn relu) =
         Inr (Intrinsic SpconvReLUNd [Conv fused_conv, Activation relu])) \<and>
    (raises (fuse_conv_bn_relu ext conv bn relu) \<longleftrightarrow> (\<exists>e. ext conv bn = Inl e))"
proof -
  have get: "dict_of map_to_fused_module_eval (cls conv) = Some SpconvReLUNd"
    using assms(1) by (simp only: map_to_fused_module_eval_get if_True)
  show ?thesis
    using assms(2-) get
    by (cases "ext conv bn") (simp_all add: fuse_conv_bn_relu_def raises_kind_def raises_def)
qed

theorem eval_relu_skips_bn_validation_witness:
  "list_all (\<lambda>c.
      \<not> affine ((sample_bn False)\<lparr>num_features := 8, affine := False,
                                    track_running_stats := False\<rparr>) \<and>
      \<not> raises (fuse_conv_bn_relu fold_keeps (sample_conv False c)
          ((sample_bn False)\<lparr>num_features := 8, affine := False, track_running_stats := False\<rparr>)
          (sample_relu False)) \<and>
      fst (fuse_conv_bn_relu fold_keeps (sample_conv False c)
          ((sample_bn False)\<lparr>num_features := 8, affine := False, track_running_stats := False\<rparr>)
          (sample_relu False)) =
        Inr (Intrinsic SpconvReLUNd [Conv (sample_conv False c), Activation (sample_relu False)]))
    sparse_conv_variants"
proof -
  have "\<not> affine ((sample_bn False)\<lparr>num_features := 8, affine := False,
                                    track_running_stats := False\<rparr>) \<and>
      \<not> raises (fuse_conv_bn_relu fold_keeps (sample_conv False c)
          ((sample_bn False)\<lparr>num_features := 8, affine := False, track_running_stats := False\<rparr>)
          (sample_relu False)) \<and>
      fst (fuse_conv_bn_relu fold_keeps (sample_conv False c)
          ((sample_bn False)\<lparr>num_features := 8, affine := False, track_running_stats := False\<rparr>)
          (sample_relu False)) =
        Inr (Intrinsic SpconvReLUNd [Conv (sample_conv False c), Activation (sample_relu False)])"
    if "c \<in> set sparse_conv_variants" for c
    using that
      eval_relu_skips_bn_validation [of "sample_conv False c"
        "(sample_bn False)\<lparr>num_features := 8, affine := False, track_running_stats := False\<rparr>"
        "sample_relu False" fold_keeps "sample_conv False c"]
    by (simp add: sample_conv_def sample_bn_def sample_relu_def fold_keeps_def)
  then show ?thesis
    unfolding list_all_iff by blast
qed

subsection \<open>The table of quantization-aware modules\<close>

text \<open>
  C9. \<open>DEFAULT_SPCONV_QAT_MODULE_MAPPINGS\<close> has two items with distinct keys:
  \<open>SpconvBnNd\<close> maps to \<open>SparseConvBn\<close> and \<open>SpconvBnReLUNd\<close> to \<open>SparseConvBnReLU\<close>.
  A module that \<open>fuse_conv_bn\<close> returns in training mode is an \<open>SpconvBnNd\<close> and one
  that \<open>fuse_conv_bn_relu\<close> returns in training mode is an \<open>SpconvBnReLUNd\<close>, so each
  has its one entry in the table.
\<close>

theorem qat_mapping_covers_training_fusions:
  "length DEFAULT_SPCONV_QAT_MODULE_MAPPINGS = 2 \<and>
   distinct (map fst DEFAULT_SPCONV_QAT_MODULE_MAPPINGS) \<and>
   dom (dict_of DEFAULT_SPCONV_QAT_MODULE_MAPPINGS) = {SpconvBnNd, SpconvBnReLUNd} \<and>
   dict_of DEFAULT_SPCONV_QAT_MODULE_MAPPINGS SpconvBnNd = Some SparseConvBn \<and>
   dict_of DEFAULT_SPCONV_QAT_MODULE_MAPPINGS SpconvBnReLUNd = Some SparseConvBnReLU \<and>
   (training conv \<and> fst (fuse_conv_bn ext conv bn) = Inr m \<longrightarrow>
      m = Intrinsic SpconvBnNd [Conv conv, BatchNorm bn]) \<and>
   (training conv \<and> fst (fuse_conv_bn_relu ext conv bn relu) = Inr m \<longrightarrow>
      m = Intrinsic SpconvBnReLUNd [Conv conv, BatchNorm bn, Activation relu])"
proof -
  have t: "length DEFAULT_SPCONV_QAT_MODULE_MAPPINGS = 2 \<and>
      distinct (map fst DEFAULT_SPCONV_QAT_MODULE_MAPPINGS)"
    by (simp add: DEFAULT_SPCONV_QAT_MODULE_MAPPINGS_def)
  have d: "dom (dict_of DEFAULT_SPCONV_QAT_MODULE_MAPPINGS) = {SpconvBnNd, SpconvBnReLUNd}"
    by (auto simp add: dom_def qat_mapping_get split: if_splits)
  have a: "m = Intrinsic SpconvBnNd [Conv conv, BatchNorm bn]"
    if "training conv" "fst (fuse_conv_bn ext conv bn) = Inr m"
    using that
    by (auto simp add: fuse_conv_bn_def fused_module_class_map_get split: if_splits)
  have b: "m = Intrinsic SpconvBnReLUNd [Conv conv, BatchNorm bn, Activation relu]"
    if "training conv" "fst (fuse_conv_bn_relu ext conv bn relu) = Inr m"
    using that
    by (auto simp add: fuse_conv_bn_relu_def map_to_fused_module_train_get split: if_splits)
  from t d a b show ?thesis
    by (simp add: qat_mapping_get)
qed

theorem qat_mapping_covers_training_fusions_witness:
  "training (sample_conv True SparseConv1d) \<and>
   fst (fuse_conv_bn fold_raises (sample_conv True SparseConv1d) (sample_bn True)) =
     Inr (Intrinsic SpconvBnNd [Conv (sample_conv True SparseConv1d), BatchNorm (sample_bn True)]) \<and>
   dict_of DEFAULT_SPCONV_QAT_MODULE_MAPPINGS SpconvBnNd = Some SparseConvBn \<and>
   fst (fuse_conv_bn_relu fold_raises (sample_conv True SparseConv1d) (sample_bn True)
          (sample_relu True)) =
     Inr (Intrinsic SpconvBnReLUNd
            [Conv (sample_conv True SparseConv1d), BatchNorm (sample_bn True),
             Activation (sample_relu True)]) \<and>
   dict_of DEFAULT_SPCONV_QAT_MODULE_MAPPINGS SpconvBnReLUNd = Some SparseConvBnReLU"
proof -
  obtain m where m: "fst (fuse_conv_bn fold_raises (sample_conv True SparseConv1d)
      (sample_bn True)) = Inr m"
    by (simp add: fuse_conv_bn_def sample_conv_def sample_bn_def fused_module_class_map_get
        sparse_conv_variants_def)
  obtain m' where m': "fst (fuse_conv_bn_relu fold_raises (sample_conv True SparseConv1d)
      (sample_bn True) (sample_relu True)) = Inr m'"
    by (simp add: fuse_conv_bn_relu_def sample_conv_def sample_bn_def sample_relu_def
        map_to_fused_module_train_get sparse_conv_variants_def)
  have t: "training (sample_conv True SparseConv1d)"
    by (simp add: sample_conv_def)
  show ?thesis
    using t m m'
      qat_mapping_covers_training_fusions [of "sample_conv True SparseConv1d" fold_raises
        "sample_bn True" m "sample_relu True"]
      qat_mapping_covers_training_fusions [of "sample_conv True SparseConv1d" fold_raises
        "sample_bn True" m' "sample_relu True"]
    by simp
qed

subsection \<open>Errors come before any work\<close>

text \<open>
  C10. A call that raises has built no module. A call that raises one of the functions'
  own errors (mode mismatch, configuration error, unsupported class) has neither called
  the external routine nor built a module. In the eval branch of \<open>fuse_conv_bn_relu\<close>
  the lookup comes first: for a class outside the nine variants the outcome is the
  \<open>NotImplementedError\<close> and the lookup is the only event. The functions assign to no
  attribute of their arguments, so the inputs are the values they were.
\<close>

theorem own_errors_precede_fold_and_construction:
  "(raises (fuse_conv_bn ext conv bn) \<longrightarrow> \<not> constructed (fuse_conv_bn ext conv bn)) \<and>
   (raises (fuse_conv_bn_relu ext conv bn relu) \<longrightarrow>
      \<not> constructed (fuse_conv_bn_relu ext conv bn relu)) \<and>
   (raises_kind (fuse_conv_bn ext conv bn) k \<longrightarrow>
      \<not> folded (fuse_conv_bn ext conv bn) \<and> \<not> constructed (fuse_conv_bn ext conv bn)) \<and>
   (raises_kind (fuse_conv_bn_relu ext conv bn relu) k \<longrightarrow>
      \<not> folded (fuse_conv_bn_relu ext conv bn relu) \<and>
      \<not> constructed (fuse_conv_bn_relu ext conv bn relu)) \<and>
   (cls conv \<notin> set sparse_conv_variants \<and>
    \<not> training conv \<and> \<not> training bn \<and> \<not> training relu \<longrightarrow>
      fuse_conv_bn_relu ext conv bn relu =
        (Inl (NotImplementedError ''Cannot fuse eval modules: ''
                [Conv conv, BatchNorm bn, Activation relu]),
         [Lookup (cls conv)]))"
proof -
  have a: "raises (fuse_conv_bn ext conv bn) \<Longrightarrow> \<not> constructed (fuse_conv_bn ext conv bn)"
    by (auto simp add: fuse_conv_bn_def raises_def constructed_def fused_module_class_map_get
        split: if_splits sum.splits)
  have b: "raises (fuse_conv_bn_relu ext conv bn relu) \<Longrightarrow>
      \<not> constructed (fuse_conv_bn_relu ext conv bn relu)"
    by (auto simp add: fuse_conv_bn_relu_def raises_def constructed_def
        map_to_fused_module_train_get map_to_fused_module_eval_get
        split: if_splits sum.splits)
  have c: "raises_kind (fuse_conv_bn ext conv bn) k \<Longrightarrow> \<not> folded (fuse_conv_bn ext conv bn)"
    by (auto simp add: fuse_conv_bn_def raises_kind_def folded_def fused_module_class_map_get
        split: if_splits sum.splits)
  have d: "raises_kind (fuse_conv_bn_relu ext conv bn relu) k \<Longrightarrow>
      \<not> folded (fuse_conv_bn_relu ext conv bn relu)"
    by (auto simp add: fuse_conv_bn_relu_def raises_kind_def folded_def
        map_to_fused_module_train_get map_to_fused_module_eval_get
        split: if_splits sum.splits)
  have rk: "raises_kind r k \<Longrightarrow> raises r" for r
    by (simp add: raises_kind_def raises_def split: sum.splits)
  have e: "fuse_conv_bn_relu ext conv bn relu =
        (Inl (NotImplementedError ''Cannot fuse eval modules: ''
                [Conv conv, BatchNorm bn, Activation relu]),
         [Lookup (cls conv)])"
    if "cls conv \<notin> set sparse_conv_variants" "\<not> training conv" "\<not> training bn"
      "\<not> training relu"
    using that by (simp add: fuse_conv_bn_relu_def map_to_fused_module_eval_get)
  from a b c d e rk show ?thesis by blast
qed

theorem own_errors_precede_fold_and_construction_witness:
  "sample_subclass \<notin> set sparse_conv_variants \<and>
   fuse_conv_bn_relu fold_keeps (sample_conv False sample_subclass) (sample_bn False)
       (sample_relu False) =
     (Inl (NotImplementedError ''Cannot fuse eval modules: ''
        [Conv (sample_conv False sample_subclass), BatchNorm (sample_bn False),
         Activation (sample_relu False)]),
      [Lookup sample_subclass]) \<and>
   raises_kind (fuse_conv_bn (fold_keeps) (sample_conv True SubMConv3d)
       ((sample_bn True)\<lparr>affine := False\<rparr>)) ConfigurationError \<and>
   \<not> folded (fuse_conv_bn (fold_keeps) (sample_conv True SubMConv3d)
       ((sample_bn True)\<lparr>affine := False\<rparr>)) \<and>
   \<not> constructed (fuse_conv_bn (fold_keeps) (sample_conv True SubMConv3d)
       ((sample_bn True)\<lparr>affine := False\<rparr>))"
proof -
  have u: "sample_subclass \<notin> set sparse_conv_variants"
    by (simp add: sample_subclass_def other_class_unsupported)
  have k: "raises_kind (fuse_conv_bn (fold_keeps) (sample_conv True SubMConv3d)
       ((sample_bn True)\<lparr>affine := False\<rparr>)) ConfigurationError"
  proof -
    have "fuse_conv_bn (fold_keeps) (sample_conv True SubMConv3d)
        ((sample_bn True)\<lparr>affine := False\<rparr>) =
        (Inl (AssertionError (affine_message Fuse_conv_bn)), [])"
      by (simp add: fuse_conv_bn_def sample_conv_def sample_bn_def affine_message_def)
    then show ?thesis
      by (simp add: raises_kind_def kind_of_configuration del: kind_of.simps)
  qed
  show ?thesis
    using u k
      own_errors_precede_fold_and_construction [of fold_keeps
        "sample_conv False sample_subclass" "sample_bn False" "sample_relu False"]
      own_errors_precede_fold_and_construction [of fold_keeps
        "sample_conv True SubMConv3d" "(sample_bn True)\<lparr>affine := False\<rparr>" _
        ConfigurationError]
    by (simp add: sample_conv_def sample_bn_def sample_relu_def)
qed

end
